theory Spec2Isabelle
  imports Complex_Main
begin

section \<open>Photon tracing (integrator.h) and the surface shading adapter (primitive.h)\<close>

text \<open>
  The development embeds \<^verbatim>\<open>PhotonMapping::build\<close>, \<^verbatim>\<open>PhotonMapping::integrate\<close>
  (integrator.h) and class \<^verbatim>\<open>Primitive\<close> (primitive.h). The headers they include
  (core.h, scene.h, light.h, material.h, photon_map.h, sampler.h) are not part of the
  sources at hand: abstract classes declared there (Scene, Light, BxDF) are modelled as
  records of functions, and the few concrete helpers the two files call are modelled
  from the specification and marked as such.
\<close>

subsection \<open>Single-precision numbers\<close>

text \<open>
  A C++ \<^verbatim>\<open>float\<close> is an IEEE 754 value. The model keeps the special values (both
  zeros, both infinities, NaN) with their IEEE arithmetic, and computes on finite
  values exactly, as real numbers: rounding, overflow and underflow of binary32 are
  not modelled. \<open>Finite 0\<close> is the positive zero, \<open>NegZero\<close> the negative one.
\<close>

datatype float = Finite real | NegZero | PInf | NInf | NaN

fun is_nan :: "float \<Rightarrow> bool" where
  "is_nan NaN = True"
| "is_nan _ = False"

fun is_inf :: "float \<Rightarrow> bool" where
  "is_inf PInf = True"
| "is_inf NInf = True"
| "is_inf _ = False"

fun is_zero :: "float \<Rightarrow> bool" where
  "is_zero (Finite r) = (r = 0)"
| "is_zero NegZero = True"
| "is_zero _ = False"

fun signbit :: "float \<Rightarrow> bool" where
  "signbit (Finite r) = (r < 0)"
| "signbit NegZero = True"
| "signbit NInf = True"
| "signbit _ = False"

text \<open>The real number a finite value stands for (0 on the special values).\<close>

fun val :: "float \<Rightarrow> real" where
  "val (Finite r) = r"
| "val _ = 0"

definition mk_zero :: "bool \<Rightarrow> float" where
  "mk_zero s = (if s then NegZero else Finite 0)"

definition mk_inf :: "bool \<Rightarrow> float" where
  "mk_inf s = (if s then NInf else PInf)"

text \<open>\<^verbatim>\<open>a * b\<close>: NaN propagates, \<open>0 * inf\<close> is NaN, the sign is the xor of the signs.\<close>

definition fmul :: "float \<Rightarrow> float \<Rightarrow> float" where
  "fmul a b =
     (if is_nan a \<or> is_nan b then NaN
      else if is_inf a \<or> is_inf b then
        (if is_zero a \<or> is_zero b then NaN else mk_inf (signbit a \<noteq> signbit b))
      else if is_zero a \<or> is_zero b then mk_zero (signbit a \<noteq> signbit b)
      else Finite (val a * val b))"

text \<open>\<^verbatim>\<open>a / b\<close>: \<open>0 / 0\<close> and \<open>inf / inf\<close> are NaN, a nonzero value over zero is an
  infinity, nothing traps.\<close>

definition fdiv :: "float \<Rightarrow> float \<Rightarrow> float" where
  "fdiv a b =
     (if is_nan a \<or> is_nan b then NaN
      else if is_inf a then (if is_inf b then NaN else mk_inf (signbit a \<noteq> signbit b))
      else if is_inf b then mk_zero (signbit a \<noteq> signbit b)
      else if is_zero b then (if is_zero a then NaN else mk_inf (signbit a \<noteq> signbit b))
      else if is_zero a then mk_zero (signbit a \<noteq> signbit b)
      else Finite (val a / val b))"

text \<open>\<^verbatim>\<open>a + b\<close>: \<open>inf + (-inf)\<close> is NaN; an exact zero sum is \<open>-0\<close> only when both
  operands are negative (round to nearest).\<close>

definition fadd :: "float \<Rightarrow> float \<Rightarrow> float" where
  "fadd a b =
     (if is_nan a \<or> is_nan b then NaN
      else if is_inf a then (if is_inf b \<and> a \<noteq> b then NaN else a)
      else if is_inf b then b
      else if val a + val b = 0 then mk_zero (signbit a \<and> signbit b)
      else Finite (val a + val b))"

fun fneg :: "float \<Rightarrow> float" where
  "fneg (Finite r) = (if r = 0 then NegZero else Finite (- r))"
| "fneg NegZero = Finite 0"
| "fneg PInf = NInf"
| "fneg NInf = PInf"
| "fneg NaN = NaN"

text \<open>\<^verbatim>\<open>std::abs\<close> on a float clears the sign.\<close>

fun std_abs :: "float \<Rightarrow> float" where
  "std_abs (Finite r) = Finite \<bar>r\<bar>"
| "std_abs NegZero = Finite 0"
| "std_abs PInf = PInf"
| "std_abs NInf = PInf"
| "std_abs NaN = NaN"

text \<open>The comparisons \<^verbatim>\<open><\<close> and \<^verbatim>\<open>>=\<close>: both are false as soon as an operand is
  NaN, and the two zeros compare equal.\<close>

fun rank :: "float \<Rightarrow> int" where
  "rank NInf = -1"
| "rank PInf = 1"
| "rank _ = 0"

definition flt :: "float \<Rightarrow> float \<Rightarrow> bool" where
  "flt a b =
     (\<not> is_nan a \<and> \<not> is_nan b \<and>
      (rank a < rank b \<or> (rank a = 0 \<and> rank b = 0 \<and> val a < val b)))"

definition fge :: "float \<Rightarrow> float \<Rightarrow> bool" where
  "fge a b = (\<not> is_nan a \<and> \<not> is_nan b \<and> \<not> flt a b)"

text \<open>\<^verbatim>\<open>std::max(a, b)\<close> is \<^verbatim>\<open>(a < b) ? b : a\<close> and \<^verbatim>\<open>std::min(a, b)\<close> is
  \<^verbatim>\<open>(b < a) ? b : a\<close>.\<close>

definition std_max :: "float \<Rightarrow> float \<Rightarrow> float" where
  "std_max a b = (if flt a b then b else a)"

definition std_min :: "float \<Rightarrow> float \<Rightarrow> float" where
  "std_min a b = (if flt b a then b else a)"

text \<open>The values that are neither an infinity nor NaN.\<close>

fun is_finite :: "float \<Rightarrow> bool" where
  "is_finite (Finite r) = True"
| "is_finite NegZero = True"
| "is_finite _ = False"

subsection \<open>Vectors (core.h)\<close>

datatype Vec3 = Vec3 (x: float) (y: float) (z: float)

text \<open>\<^verbatim>\<open>Vec3(0)\<close>: the same value in the three components.\<close>

definition Vec3_splat :: "float \<Rightarrow> Vec3" where
  "Vec3_splat v = Vec3 v v v"

text \<open>Modelled from the spec: the operators of \<^verbatim>\<open>Vec3\<close> live in core.h, which is
  missing; the specification has them componentwise (``divide throughput by survival
  probability'', \<open>throughput *= f \<times> |cos| / pdf\<close>).\<close>

definition vneg :: "Vec3 \<Rightarrow> Vec3" where
  "vneg v = Vec3 (fneg (x v)) (fneg (y v)) (fneg (z v))"

definition vscale :: "Vec3 \<Rightarrow> float \<Rightarrow> Vec3" where
  "vscale v k = Vec3 (fmul (x v) k) (fmul (y v) k) (fmul (z v) k)"

definition vdivf :: "Vec3 \<Rightarrow> float \<Rightarrow> Vec3" where
  "vdivf v k = Vec3 (fdiv (x v) k) (fdiv (y v) k) (fdiv (z v) k)"

definition vmul :: "Vec3 \<Rightarrow> Vec3 \<Rightarrow> Vec3" where
  "vmul a b = Vec3 (fmul (x a) (x b)) (fmul (y a) (y b)) (fmul (z a) (z b))"

definition dot :: "Vec3 \<Rightarrow> Vec3 \<Rightarrow> float" where
  "dot a b = fadd (fadd (fmul (x a) (x b)) (fmul (y a) (y b))) (fmul (z a) (z b))"

text \<open>Modelled from the spec: \<^verbatim>\<open>worldToLocal\<close> and \<^verbatim>\<open>localToWorld\<close> are defined in
  core.h, which is missing. The specification says they convert a direction between
  world space and the local frame defined by \<open>(dpdu, normal, dpdv)\<close>: the local
  coordinates of \<open>v\<close> are its components along the three axes, and a local vector
  is mapped back to the combination of the axes with its coordinates.\<close>

definition worldToLocal :: "Vec3 \<Rightarrow> Vec3 \<Rightarrow> Vec3 \<Rightarrow> Vec3 \<Rightarrow> Vec3" where
  "worldToLocal v lx ly lz = Vec3 (dot v lx) (dot v ly) (dot v lz)"

definition localToWorld :: "Vec3 \<Rightarrow> Vec3 \<Rightarrow> Vec3 \<Rightarrow> Vec3 \<Rightarrow> Vec3" where
  "localToWorld v lx ly lz =
     Vec3 (fadd (fadd (fmul (x v) (x lx)) (fmul (y v) (x ly))) (fmul (z v) (x lz)))
          (fadd (fadd (fmul (x v) (y lx)) (fmul (y v) (y ly))) (fmul (z v) (y lz)))
          (fadd (fadd (fmul (x v) (z lx)) (fmul (y v) (z ly))) (fmul (z v) (z lz)))"

subsection \<open>The collaborators: sampler, surfaces, lights, materials, scene\<close>

text \<open>A \<^verbatim>\<open>Sampler\<close> is the sequence of numbers it will hand out and a cursor into
  it; \<^verbatim>\<open>getNext1D\<close> returns the next number and advances. The sampler is passed by
  reference in the program, so every function that draws from it returns it.\<close>

record Sampler =
  draws :: "nat \<Rightarrow> float"
  cursor :: nat

definition getNext1D :: "Sampler \<Rightarrow> float \<times> Sampler" where
  "getNext1D s = (draws s (cursor s), s\<lparr>cursor := Suc (cursor s)\<rparr>)"

text \<open>Modelled from the spec: \<^verbatim>\<open>SurfaceInfo\<close> and \<^verbatim>\<open>Ray\<close> are declared in core.h,
  which is missing; the fields are those of the specification's data model, which are
  also the ones the two files read.\<close>

record SurfaceInfo =
  position :: Vec3
  normal :: Vec3
  dpdu :: Vec3
  dpdv :: Vec3

record Ray =
  origin :: Vec3
  direction :: Vec3

text \<open>Modelled from the spec: the enumeration \<^verbatim>\<open>BxDFType\<close> is declared in material.h,
  which is missing; it distinguishes \<open>DIFFUSE\<close> from the other reflectance classes.\<close>

datatype BxDFType = DIFFUSE | SPECULAR

text \<open>Modelled from the spec: \<^verbatim>\<open>DirectionPair\<close> is declared in material.h, which is
  missing; the specification has it as a direction paired with its weight.\<close>

type_synonym DirectionPair = "Vec3 \<times> Vec3"

text \<open>The abstract class \<^verbatim>\<open>BxDF\<close> (material.h): its virtual functions are the fields.
  \<open>BxDF_sampleDirection wo sampler\<close> returns the value \<open>f\<close>, the sampled direction,
  its pdf and the sampler.\<close>

record BxDF =
  BxDF_getType :: BxDFType
  BxDF_evaluate :: "Vec3 \<Rightarrow> Vec3 \<Rightarrow> Vec3"
  BxDF_sampleDirection :: "Vec3 \<Rightarrow> Sampler \<Rightarrow> Vec3 \<times> Vec3 \<times> float \<times> Sampler"
  BxDF_sampleAllDirection :: "Vec3 \<Rightarrow> DirectionPair list"

text \<open>The abstract class \<^verbatim>\<open>Light\<close> (light.h): the sampling functions return the
  sample, its pdf and the sampler.\<close>

record Light =
  Light_Le :: "SurfaceInfo \<Rightarrow> Vec3 \<Rightarrow> Vec3"
  Light_samplePoint :: "Sampler \<Rightarrow> SurfaceInfo \<times> float \<times> Sampler"
  Light_sampleDirection :: "SurfaceInfo \<Rightarrow> Sampler \<Rightarrow> Vec3 \<times> float \<times> Sampler"

subsection \<open>class Primitive (primitive.h)\<close>

text \<open>The members \<open>bxdf\<close> and \<open>areaLight\<close>; a null \<open>areaLight\<close> is \<open>None\<close>. The
  \<open>triangle\<close> pointer is read by no member function and is left out.\<close>

record Primitive =
  bxdf :: BxDF
  areaLight :: "Light option"

definition hasAreaLight :: "Primitive \<Rightarrow> bool" where
  "hasAreaLight p = (areaLight p \<noteq> None)"

text \<open>\<^verbatim>\<open>Le\<close> dereferences \<open>areaLight\<close> unchecked: there is no result without a light.\<close>

definition Le :: "Primitive \<Rightarrow> SurfaceInfo \<Rightarrow> Vec3 \<Rightarrow> Vec3 option" where
  "Le p surfInfo dir = map_option (\<lambda>l. Light_Le l surfInfo dir) (areaLight p)"

definition getBxDFType :: "Primitive \<Rightarrow> BxDFType" where
  "getBxDFType p = BxDF_getType (bxdf p)"

definition evaluateBxDF :: "Primitive \<Rightarrow> Vec3 \<Rightarrow> Vec3 \<Rightarrow> SurfaceInfo \<Rightarrow> Vec3" where
  "evaluateBxDF p wo wi surfInfo =
     (let wo_l = worldToLocal wo (dpdu surfInfo) (normal surfInfo) (dpdv surfInfo);
          wi_l = worldToLocal wi (dpdu surfInfo) (normal surfInfo) (dpdv surfInfo)
      in BxDF_evaluate (bxdf p) wo_l wi_l)"

text \<open>\<^verbatim>\<open>sampleBxDF\<close> returns \<open>f\<close>; the out-parameters \<open>wi\<close>, \<open>pdf\<close> and the sampler
  come with it.\<close>

definition sampleBxDF ::
  "Primitive \<Rightarrow> Vec3 \<Rightarrow> SurfaceInfo \<Rightarrow> Sampler \<Rightarrow> Vec3 \<times> Vec3 \<times> float \<times> Sampler" where
  "sampleBxDF p wo surfInfo sampler =
     (let wo_l = worldToLocal wo (dpdu surfInfo) (normal surfInfo) (dpdv surfInfo) in
      case BxDF_sampleDirection (bxdf p) wo_l sampler of
        (f, wi_l, pdf, sampler') \<Rightarrow>
          (f, localToWorld wi_l (dpdu surfInfo) (normal surfInfo) (dpdv surfInfo), pdf, sampler'))"

text \<open>The range-for of \<^verbatim>\<open>sampleAllBxDF\<close>, which overwrites \<open>dp.first\<close> of each pair
  in turn.\<close>

fun transform_pairs :: "SurfaceInfo \<Rightarrow> DirectionPair list \<Rightarrow> DirectionPair list" where
  "transform_pairs surfInfo [] = []"
| "transform_pairs surfInfo (dp # dps) =
     (localToWorld (fst dp) (dpdu surfInfo) (normal surfInfo) (dpdv surfInfo), snd dp)
       # transform_pairs surfInfo dps"

definition sampleAllBxDF :: "Primitive \<Rightarrow> Vec3 \<Rightarrow> SurfaceInfo \<Rightarrow> DirectionPair list" where
  "sampleAllBxDF p wo surfInfo =
     (let wo_l = worldToLocal wo (dpdu surfInfo) (normal surfInfo) (dpdv surfInfo);
          dir_pairs = BxDF_sampleAllDirection (bxdf p) wo_l
      in transform_pairs surfInfo dir_pairs)"

subsection \<open>Scene and photon map\<close>

record IntersectInfo =
  hitPrimitive :: Primitive
  surfaceInfo :: SurfaceInfo

text \<open>The two functions of \<^verbatim>\<open>Scene\<close> (scene.h) that \<open>build\<close> calls. \<open>Scene_intersect\<close>
  is \<open>None\<close> when the ray hits nothing.\<close>

record Scene =
  Scene_sampleLight :: "Sampler \<Rightarrow> Light \<times> float \<times> Sampler"
  Scene_intersect :: "Ray \<Rightarrow> IntersectInfo option"

text \<open>Modelled from the spec: \<^verbatim>\<open>Photon\<close> is declared in photon_map.h, which is
  missing; \<open>build\<close> constructs it as \<^verbatim>\<open>Photon(throughput, position, -ray.direction)\<close>,
  and the specification names the three fields.\<close>

datatype Photon = Photon (power: Vec3) (photon_position: Vec3) (incomingDirection: Vec3)

text \<open>Modelled from the spec: \<^verbatim>\<open>PhotonMap\<close> is defined in photon_map.h, which is
  missing. The specification describes a store that photons are appended to and that an
  explicit build step then finalises.\<close>

record PhotonMap =
  photons :: "Photon list"
  built :: bool

definition addPhoton :: "PhotonMap \<Rightarrow> Photon \<Rightarrow> PhotonMap" where
  "addPhoton m p = m\<lparr>photons := photons m @ [p]\<rparr>"

definition PhotonMap_build :: "PhotonMap \<Rightarrow> PhotonMap" where
  "PhotonMap_build m = m\<lparr>built := True\<rparr>"

subsection \<open>class PhotonMapping (integrator.h)\<close>

record PhotonMapping =
  nPhotons :: int
  nDensityEstimation :: int
  maxDepth :: int
  photonMap :: PhotonMap

text \<open>The constructor: the three parameters and a default-constructed photon map.\<close>

definition PhotonMapping_new :: "int \<Rightarrow> int \<Rightarrow> int \<Rightarrow> PhotonMapping" where
  "PhotonMapping_new n d m =
     \<lparr>nPhotons = n, nDensityEstimation = d, maxDepth = m,
      photonMap = \<lparr>photons = [], built = False\<rparr>\<rparr>"

text \<open>
  The variables of one pass of the outer loop: \<open>ray\<close>, \<open>throughput\<close>, the sampler and
  the slot \<open>photons[i]\<close>. The field \<open>visited\<close> is a history variable that the program
  does not have and that nothing reads: it lists, for each surface hit so far, its
  BxDF type and the photon \<^verbatim>\<open>Photon(throughput, position, -ray.direction)\<close> of that hit.
  The slot starts empty, as the constructor of the vector leaves \<open>photons[i]\<close>.
\<close>

record Walk =
  ray :: Ray
  throughput :: Vec3
  sampler :: Sampler
  slot :: "Photon option"
  visited :: "(BxDFType \<times> Photon) list"

text \<open>Lines 43 to 61: sample a light, a point and a direction on it, spawn the ray and
  set the initial throughput.\<close>

definition emit :: "Scene \<Rightarrow> Sampler \<Rightarrow> Walk" where
  "emit scene s =
     (case Scene_sampleLight scene s of (light, light_choose_pdf, s1) \<Rightarrow>
      case Light_samplePoint light s1 of (light_surf, light_pos_pdf, s2) \<Rightarrow>
      case Light_sampleDirection light light_surf s2 of (dir, light_dir_pdf, s3) \<Rightarrow>
        \<lparr>ray = \<lparr>origin = position light_surf, direction = dir\<rparr>,
         throughput =
           vscale (vdivf (Light_Le light light_surf dir) (fmul light_choose_pdf light_pos_pdf))
                  (std_abs (dot dir (normal light_surf))),
         sampler = s3, slot = None, visited = []\<rparr>)"

text \<open>Lines 70 to 74: a hit on a diffuse surface assigns \<open>photons[i]\<close>.\<close>

definition deposit :: "IntersectInfo \<Rightarrow> Walk \<Rightarrow> Walk" where
  "deposit info w =
     (let bxdf_type = getBxDFType (hitPrimitive info);
          p = Photon (throughput w) (position (surfaceInfo info)) (vneg (direction (ray w)))
      in w\<lparr>slot := (if bxdf_type = DIFFUSE then Some p else slot w),
            visited := visited w @ [(bxdf_type, p)]\<rparr>)"

text \<open>Lines 77 to 85: russian roulette. The result is \<open>False\<close> when the loop is left
  by \<^verbatim>\<open>break\<close>.\<close>

definition russian_roulette :: "int \<Rightarrow> Walk \<Rightarrow> bool \<times> Walk" where
  "russian_roulette k w =
     (if k > 0 then
        (let russian_roulette_prob =
               std_min (std_max (x (throughput w))
                                (std_max (y (throughput w)) (z (throughput w))))
                       (Finite 1)
         in case getNext1D (sampler w) of (u, s') \<Rightarrow>
              if fge u russian_roulette_prob then (False, w\<lparr>sampler := s'\<rparr>)
              else (True, w\<lparr>throughput := vdivf (throughput w) russian_roulette_prob,
                            sampler := s'\<rparr>))
      else (True, w))"

text \<open>Lines 88 to 96: sample the next direction, update throughput and ray. The program
  calls \<^verbatim>\<open>hitPrimitive->sampleBRDF\<close>; the member of \<open>Primitive\<close> with these
  parameters is \<^verbatim>\<open>sampleBxDF\<close>.\<close>

definition scatter :: "IntersectInfo \<Rightarrow> Walk \<Rightarrow> Walk" where
  "scatter info w =
     (case sampleBxDF (hitPrimitive info) (vneg (direction (ray w))) (surfaceInfo info)
             (sampler w) of
        (f, dir, pdf_dir, s') \<Rightarrow>
          w\<lparr>throughput :=
              vmul (throughput w)
                   (vdivf (vscale f (std_abs (dot dir (normal (surfaceInfo info))))) pdf_dir),
            ray := \<lparr>origin = position (surfaceInfo info), direction = dir\<rparr>,
            sampler := s'\<rparr>)"

text \<open>How the inner loop was left.\<close>

datatype Stop = Escaped | Roulette | DepthExhausted

text \<open>One pass through the body of the inner loop (lines 67 to 100): \<open>Some\<close> reason
  when it breaks, \<open>None\<close> when it falls through to \<^verbatim>\<open>++k\<close>.\<close>

definition bounce :: "Scene \<Rightarrow> int \<Rightarrow> Walk \<Rightarrow> Stop option \<times> Walk" where
  "bounce scene k w =
     (case Scene_intersect scene (ray w) of
        Some info \<Rightarrow>
          (case russian_roulette k (deposit info w) of
             (alive, w') \<Rightarrow> if alive then (None, scatter info w') else (Some Roulette, w'))
      | None \<Rightarrow> (Some Escaped, w))"

text \<open>The inner loop \<^verbatim>\<open>for (int k = 0; k < maxDepth; ++k)\<close>, from the current \<open>k\<close>.\<close>

function trace :: "Scene \<Rightarrow> int \<Rightarrow> int \<Rightarrow> Walk \<Rightarrow> Stop \<times> Walk" where
  "trace scene depth k w =
     (if k < depth then
        (case bounce scene k w of
           (None, w') \<Rightarrow> trace scene depth (k + 1) w'
         | (Some reason, w') \<Rightarrow> (reason, w'))
      else (DepthExhausted, w))"
  by pat_completeness auto
termination
  by (relation "measure (\<lambda>(scene, depth, k, w). nat (depth - k))") auto

text \<open>The body of the outer loop for one \<open>i\<close>.\<close>

definition walk :: "Scene \<Rightarrow> int \<Rightarrow> Sampler \<Rightarrow> Stop \<times> Walk" where
  "walk scene depth s = trace scene depth 0 (emit scene s)"

text \<open>
  The outer loop \<^verbatim>\<open>for (int i = 0; i < nPhotons; ++i)\<close>. The program runs it as an OpenMP
  parallel loop over one shared sampler; the model runs the passes in the order of \<open>i\<close>
  and hands the sampler from one to the next.
\<close>

function photon_tracing ::
  "Scene \<Rightarrow> int \<Rightarrow> int \<Rightarrow> int \<Rightarrow> Photon option list \<Rightarrow> Sampler \<Rightarrow> Photon option list \<times> Sampler"
where
  "photon_tracing scene depth n i slots s =
     (if i < n then
        (case walk scene depth s of
           (reason, w) \<Rightarrow>
             photon_tracing scene depth n (i + 1) (slots[nat i := slot w]) (sampler w))
      else (slots, s))"
  by pat_completeness auto
termination
  by (relation "measure (\<lambda>(scene, depth, n, i, slots, s). nat (n - i))") auto

text \<open>Lines 105 to 109: the slots that hold a photon go to the photon map.\<close>

fun add_photons :: "Photon option list \<Rightarrow> PhotonMap \<Rightarrow> PhotonMap" where
  "add_photons [] m = m"
| "add_photons (p # ps) m =
     add_photons ps (case p of Some ph \<Rightarrow> addPhoton m ph | None \<Rightarrow> m)"

text \<open>\<^verbatim>\<open>std::vector<std::optional<Photon>> photons(nPhotons)\<close> converts a negative
  \<open>nPhotons\<close> to a size beyond \<open>max_size()\<close>, and the constructor throws
  \<^verbatim>\<open>std::length_error\<close>. Nothing else in \<open>build\<close> or \<open>integrate\<close> throws.\<close>

datatype error = Length_error

definition build :: "PhotonMapping \<Rightarrow> Scene \<Rightarrow> Sampler \<Rightarrow> error + PhotonMapping \<times> Sampler" where
  "build pm scene s =
     (if nPhotons pm < 0 then Inl Length_error
      else
        (case photon_tracing scene (maxDepth pm) (nPhotons pm) 0
                (replicate (nat (nPhotons pm)) None) s of
           (slots, s') \<Rightarrow>
             Inr (pm\<lparr>photonMap := PhotonMap_build (add_photons slots (photonMap pm))\<rparr>, s')))"

text \<open>\<open>integrate\<close> reads none of its arguments.\<close>

definition integrate :: "PhotonMapping \<Rightarrow> Ray \<Rightarrow> Scene \<Rightarrow> Sampler \<Rightarrow> error + Vec3" where
  "integrate pm r scene s = Inr (Vec3_splat (Finite 0))"

subsection \<open>A small scene\<close>

text \<open>
  Concrete collaborators on which the program is run below. The sampler always hands
  out \<open>1/4\<close>. The light sits at the origin, faces and emits radiance 1 along the \<open>x\<close>
  axis, and reports direction pdf \<open>1/2\<close>. Two thin sheets of the given BxDF type stand
  across the \<open>x\<close> axis at \<open>x = 1\<close> and \<open>x = 2\<close>: a ray that starts at \<open>x < 2\<close> hits
  a surface one unit further along \<open>x\<close>, and the surface scatters along its normal,
  the \<open>x\<close> axis, with value \<open>1/2\<close> and the given pdf. A walk therefore hits at
  \<open>x = 1\<close>, at \<open>x = 2\<close>, and then leaves the scene.
\<close>

definition ex_sampler :: Sampler where
  "ex_sampler = \<lparr>draws = (\<lambda>n. Finite (1/4)), cursor = 0\<rparr>"

definition ex_surf :: "Vec3 \<Rightarrow> SurfaceInfo" where
  "ex_surf p =
     \<lparr>position = p, normal = Vec3 (Finite 1) (Finite 0) (Finite 0),
      dpdu = Vec3 (Finite 0) (Finite 1) (Finite 0),
      dpdv = Vec3 (Finite 0) (Finite 0) (Finite 1)\<rparr>"

definition ex_bxdf :: "BxDFType \<Rightarrow> float \<Rightarrow> BxDF" where
  "ex_bxdf ty pdf =
     \<lparr>BxDF_getType = ty,
      BxDF_evaluate = (\<lambda>wo wi. Vec3_splat (Finite (1/2))),
      BxDF_sampleDirection =
        (\<lambda>wo s. (Vec3_splat (Finite (1/2)), Vec3 (Finite 0) (Finite 1) (Finite 0), pdf, s)),
      BxDF_sampleAllDirection =
        (\<lambda>wo. [(Vec3 (Finite 0) (Finite 1) (Finite 0), Vec3_splat (Finite 1)),
                (Vec3 (Finite 1) (Finite 0) (Finite 0), Vec3_splat (Finite (1/2)))])\<rparr>"

definition ex_prim :: "BxDFType \<Rightarrow> float \<Rightarrow> Primitive" where
  "ex_prim ty pdf = \<lparr>bxdf = ex_bxdf ty pdf, areaLight = None\<rparr>"

definition ex_light :: Light where
  "ex_light =
     \<lparr>Light_Le = (\<lambda>surf dir. Vec3_splat (Finite 1)),
      Light_samplePoint = (\<lambda>s. (ex_surf (Vec3_splat (Finite 0)), Finite 1, s)),
      Light_sampleDirection =
        (\<lambda>surf s. (Vec3 (Finite 1) (Finite 0) (Finite 0), Finite (1/2), s))\<rparr>"

definition ex_scene :: "BxDFType \<Rightarrow> float \<Rightarrow> Scene" where
  "ex_scene ty pdf =
     \<lparr>Scene_sampleLight = (\<lambda>s. (ex_light, Finite 1, s)),
      Scene_intersect =
        (\<lambda>r. if flt (x (origin r)) (Finite 2)
              then Some \<lparr>hitPrimitive = ex_prim ty pdf,
                         surfaceInfo =
                           ex_surf (Vec3 (fadd (x (origin r)) (Finite 1)) (Finite 0) (Finite 0))\<rparr>
              else None)\<rparr>"

definition ex_ray :: Ray where
  "ex_ray = \<lparr>origin = Vec3_splat (Finite 0), direction = Vec3 (Finite 1) (Finite 0) (Finite 0)\<rparr>"

text \<open>The states of the walk in \<open>ex_scene DIFFUSE 1\<close>: after emission, after the first and
  after the second hit, and the photons of the two hits.\<close>

definition ex_p1 :: Photon where
  "ex_p1 = Photon (Vec3 (Finite 1) (Finite 1) (Finite 1)) (Vec3 (Finite 1) (Finite 0) (Finite 0))
                       (Vec3 (Finite (-1)) NegZero NegZero)"

definition ex_p2 :: Photon where
  "ex_p2 = Photon (Vec3 (Finite (1/2)) (Finite (1/2)) (Finite (1/2))) (Vec3 (Finite 2) (Finite 0) (Finite 0))
                       (Vec3 (Finite (-1)) NegZero NegZero)"

definition ex_w0 :: Walk where
  "ex_w0 = \<lparr>ray = \<lparr>origin = Vec3 (Finite 0) (Finite 0) (Finite 0),
              direction = Vec3 (Finite 1) (Finite 0) (Finite 0)\<rparr>,
       throughput = Vec3 (Finite 1) (Finite 1) (Finite 1),
       sampler = ex_sampler,
       slot = None, visited = []\<rparr>"

definition ex_w1 :: Walk where
  "ex_w1 = \<lparr>ray = \<lparr>origin = Vec3 (Finite 1) (Finite 0) (Finite 0),
              direction = Vec3 (Finite 1) (Finite 0) (Finite 0)\<rparr>,
       throughput = Vec3 (Finite (1/2)) (Finite (1/2)) (Finite (1/2)),
       sampler = ex_sampler,
       slot = Some ex_p1, visited = [(DIFFUSE, ex_p1)]\<rparr>"

definition ex_w2 :: Walk where
  "ex_w2 = \<lparr>ray = \<lparr>origin = Vec3 (Finite 2) (Finite 0) (Finite 0),
              direction = Vec3 (Finite 1) (Finite 0) (Finite 0)\<rparr>,
       throughput = Vec3 (Finite (1/2)) (Finite (1/2)) (Finite (1/2)),
       sampler = ex_sampler\<lparr>cursor := 1\<rparr>,
       slot = Some ex_p2, visited = [(DIFFUSE, ex_p1), (DIFFUSE, ex_p2)]\<rparr>"

text \<open>The state after the first hit with a dimmer throughput.\<close>

definition ex_w1_dim :: Walk where
  "ex_w1_dim = ex_w1\<lparr>throughput := Vec3 (Finite (1/8)) (Finite (1/16)) (Finite (1/8))\<rparr>"

text \<open>The scene whose lights all report the direction pdf \<open>q\<close>, and are otherwise
  unchanged.\<close>

definition with_direction_pdf :: "float \<Rightarrow> Scene \<Rightarrow> Scene" where
  "with_direction_pdf q scene =
     scene\<lparr>Scene_sampleLight := \<lambda>s.
       case Scene_sampleLight scene s of
         (light, pdf, s') \<Rightarrow>
           (light\<lparr>Light_sampleDirection := \<lambda>surf s.
              case Light_sampleDirection light surf s of (dir, pdf_dir, s'') \<Rightarrow> (dir, q, s'')\<rparr>,
            pdf, s')\<rparr>"

text \<open>The walk in \<open>ex_scene DIFFUSE 0\<close>, where every BxDF sample comes with pdf 0:
  the states after the first and the second hit, and the photon of the second hit.\<close>

definition ex_p2_inf :: Photon where
  "ex_p2_inf = Photon (Vec3 PInf PInf PInf) (Vec3 (Finite 2) (Finite 0) (Finite 0))
                       (Vec3 (Finite (-1)) NegZero NegZero)"

definition ex_v1 :: Walk where
  "ex_v1 = ex_w1\<lparr>throughput := Vec3 PInf PInf PInf\<rparr>"

definition ex_v2 :: Walk where
  "ex_v2 = ex_w2\<lparr>throughput := Vec3 PInf PInf PInf, slot := Some ex_p2_inf,
                 visited := [(DIFFUSE, ex_p1), (DIFFUSE, ex_p2_inf)]\<rparr>"

subsection \<open>Invariants\<close>

text \<open>The slot holds the photon of the last diffuse hit so far, and nothing before the
  first one.\<close>

definition slot_inv :: "Walk \<Rightarrow> bool" where
  "slot_inv w = (slot w =
     (case filter (\<lambda>h. fst h = DIFFUSE) (visited w) of
        [] \<Rightarrow> None | h # hs \<Rightarrow> Some (snd (last (h # hs)))))"

section \<open>Properties\<close>

subsection \<open>Unfolding the loops\<close>

declare trace.simps [simp del] photon_tracing.simps [simp del]

lemmas float_defs =
  fmul_def fdiv_def fadd_def flt_def fge_def std_max_def std_min_def mk_zero_def mk_inf_def

lemmas vec_defs =
  Vec3_splat_def vneg_def vscale_def vdivf_def vmul_def dot_def worldToLocal_def
  localToWorld_def

lemmas ex_defs =
  ex_sampler_def ex_surf_def ex_bxdf_def ex_prim_def ex_light_def ex_scene_def ex_ray_def

lemma trace_done: "\<not> k < depth \<Longrightarrow> trace scene depth k w = (DepthExhausted, w)"
  by (simp add: trace.simps)

lemma trace_continue:
  "k < depth \<Longrightarrow> bounce scene k w = (None, w') \<Longrightarrow>
   trace scene depth k w = trace scene depth (k + 1) w'"
  by (simp add: trace.simps[of scene depth k w])

lemma trace_break:
  "k < depth \<Longrightarrow> bounce scene k w = (Some r, w') \<Longrightarrow> trace scene depth k w = (r, w')"
  by (simp add: trace.simps[of scene depth k w])

text \<open>A property that every pass of the loop body keeps holds when the loop is left.\<close>

lemma trace_invariant:
  "(\<And>k w r w'. bounce scene k w = (r, w') \<Longrightarrow> P w \<Longrightarrow> P w') \<Longrightarrow> P w \<Longrightarrow>
   P (snd (trace scene depth k w))"
proof (induction scene depth k w rule: trace.induct)
  case (1 scene depth k w)
  show ?case
  proof (cases "k < depth")
    case False
    with "1.prems" show ?thesis by (simp add: trace_done)
  next
    case True
    obtain b w1 where b: "bounce scene k w = (b, w1)" by (cases "bounce scene k w")
    from "1.prems"(1)[OF b "1.prems"(2)] have w1: "P w1" .
    show ?thesis
    proof (cases b)
      case None
      with "1.IH"[OF True b[symmetric] None "1.prems"(1) w1] True b show ?thesis
        by (simp add: trace_continue)
    next
      case (Some reason)
      with True b w1 show ?thesis by (simp add: trace_break)
    qed
  qed
qed

lemma photon_tracing_unfold:
  "i < n \<Longrightarrow>
   photon_tracing scene depth n i slots s =
     (case walk scene depth s of
        (reason, w) \<Rightarrow>
          photon_tracing scene depth n (i + 1) (slots[nat i := slot w]) (sampler w))"
  by (simp add: photon_tracing.simps[of scene depth n i slots s])

lemma photon_tracing_done: "\<not> i < n \<Longrightarrow> photon_tracing scene depth n i slots s = (slots, s)"
  by (simp add: photon_tracing.simps)

text \<open>The three ways through the loop body.\<close>

lemma bounce_cases:
  "bounce scene k w = (r, w') \<Longrightarrow>
   (r = Some Escaped \<and> w' = w \<and> Scene_intersect scene (ray w) = None) \<or>
   (\<exists>info. Scene_intersect scene (ray w) = Some info \<and>
      ((r = Some Roulette \<and> 0 < k \<and> russian_roulette k (deposit info w) = (False, w')) \<or>
       (r = None \<and>
        (\<exists>w2. russian_roulette k (deposit info w) = (True, w2) \<and> w' = scatter info w2))))"
  by (auto simp: bounce_def russian_roulette_def split: option.splits prod.splits if_splits)

lemma russian_roulette_keeps:
  "russian_roulette k w = (b, w') \<Longrightarrow>
   slot w' = slot w \<and> visited w' = visited w \<and> ray w' = ray w"
  by (auto simp: russian_roulette_def Let_def split: if_splits prod.splits)

lemma scatter_keeps: "slot (scatter info w) = slot w \<and> visited (scatter info w) = visited w"
  by (simp add: scatter_def split: prod.splits)

lemma deposit_slot:
  "slot (deposit info w) =
   (if getBxDFType (hitPrimitive info) = DIFFUSE
    then Some (Photon (throughput w) (position (surfaceInfo info)) (vneg (direction (ray w))))
    else slot w)"
  by (simp add: deposit_def Let_def)

lemma deposit_visited:
  "visited (deposit info w) =
   visited w @ [(getBxDFType (hitPrimitive info),
      Photon (throughput w) (position (surfaceInfo info)) (vneg (direction (ray w))))]"
  by (simp add: deposit_def Let_def)

subsection \<open>Length of a walk\<close>

lemma bounce_length:
  assumes "bounce scene k w = (r, w')"
  shows "length (visited w') = length (visited w) + (if r = Some Escaped then 0 else 1)"
    and "r \<noteq> Some DepthExhausted"
    and "r = Some Roulette \<Longrightarrow> 0 < k"
  using bounce_cases[OF assms]
  by (auto dest!: russian_roulette_keeps simp: scatter_keeps deposit_visited)

lemma trace_length:
  "trace scene depth k w = (r, w') \<Longrightarrow> 0 \<le> k \<Longrightarrow>
   (case r of
      DepthExhausted \<Rightarrow> length (visited w') = length (visited w) + nat (depth - k)
    | Escaped \<Rightarrow> length (visited w') < length (visited w) + nat (depth - k)
    | Roulette \<Rightarrow>
        length (visited w) + (if k = 0 then 2 else 1) \<le> length (visited w') \<and>
        length (visited w') \<le> length (visited w) + nat (depth - k))"
proof (induction scene depth k w arbitrary: r w' rule: trace.induct)
  case (1 scene depth k w)
  show ?case
  proof (cases "k < depth")
    case False
    with "1.prems" show ?thesis by (simp add: trace_done)
  next
    case True
    obtain b w1 where b: "bounce scene k w = (b, w1)" by (cases "bounce scene k w")
    show ?thesis
    proof (cases b)
      case None
      with True b "1.prems" have t: "trace scene depth (k + 1) w1 = (r, w')"
        by (simp add: trace_continue)
      have "nat (depth - k) = Suc (nat (depth - (k + 1)))" using True by simp
      moreover have "length (visited w1) = length (visited w) + 1"
        using bounce_length(1)[OF b] None by simp
      moreover have "0 \<le> k + 1" "k + 1 \<noteq> 0" using "1.prems" by simp_all
      ultimately show ?thesis
        using "1.IH"[OF True b[symmetric] None t] by (cases r) simp_all
    next
      case (Some reason)
      with True b "1.prems" have "r = reason" "w' = w1" by (simp_all add: trace_break)
      with bounce_length[OF b] Some True "1.prems" show ?thesis
        by (cases r) auto
    qed
  qed
qed

text \<open>
  C9. Every walk comes to an end, and it does so after at most \<open>maxDepth\<close> surface
  hits: \<open>trace\<close> is a total function (its termination is proved with the measure
  \<open>maxDepth - k\<close>), and of the three ways it ends, running out of depth has seen exactly
  \<open>maxDepth\<close> hits (none for a non-positive \<open>maxDepth\<close>), leaving the scene has seen
  fewer, and russian roulette has seen at least two and at most \<open>maxDepth\<close>. Running
  out of depth is an ordinary result of the walk, like the other two.
\<close>

theorem walk_ends_within_maxDepth:
  "(case walk scene depth s of
      (DepthExhausted, w') \<Rightarrow> length (visited w') = nat depth
    | (Escaped, w') \<Rightarrow> length (visited w') < nat depth
    | (Roulette, w') \<Rightarrow> 2 \<le> length (visited w') \<and> length (visited w') \<le> nat depth)"
proof -
  obtain r w' where t: "trace scene depth 0 (emit scene s) = (r, w')"
    by (cases "trace scene depth 0 (emit scene s)")
  have "visited (emit scene s) = []"
    by (simp add: emit_def split: prod.splits)
  with trace_length[OF t] t show ?thesis
    by (cases r) (simp_all add: walk_def)
qed

subsection \<open>integrate\<close>

text \<open>
  C4 (as amended). \<open>integrate\<close> returns the zero radiance \<^verbatim>\<open>Vec3(0)\<close> for every
  instance, ray, scene and sampler, whether or not \<open>build\<close> has run on the instance; it
  reports no error.
\<close>

theorem integrate_returns_zero:
  "integrate pm r scene s = Inr (Vec3 (Finite 0) (Finite 0) (Finite 0))"
  by (simp add: integrate_def Vec3_splat_def)

text \<open>On a freshly constructed instance, whose photon map has not been built, the call
  is answered with zero radiance.\<close>

theorem integrate_before_build_counterexample:
  "\<not> built (photonMap (PhotonMapping_new 10 5 100)) \<and>
   integrate (PhotonMapping_new 10 5 100) ex_ray (ex_scene DIFFUSE (Finite 1)) ex_sampler
     = Inr (Vec3 (Finite 0) (Finite 0) (Finite 0))"
  by (simp add: integrate_def Vec3_splat_def PhotonMapping_new_def)

subsection \<open>Running the small scene\<close>

text \<open>Arithmetic on finite values, for evaluation.\<close>

lemma fmul_Finite:
  "fmul (Finite a) (Finite b) =
   (if a = 0 \<or> b = 0 then mk_zero ((a < 0) \<noteq> (b < 0)) else Finite (a * b))"
  by (simp add: fmul_def)

lemma fdiv_Finite:
  "fdiv (Finite a) (Finite b) =
   (if b = 0 then (if a = 0 then NaN else mk_inf ((a < 0) \<noteq> (b < 0)))
    else if a = 0 then mk_zero ((a < 0) \<noteq> (b < 0)) else Finite (a / b))"
  by (simp add: fdiv_def)

lemma fadd_Finite: "fadd (Finite a) (Finite b) = Finite (a + b)"
  by (auto simp: fadd_def mk_zero_def)

lemma flt_Finite: "flt (Finite a) (Finite b) = (a < b)"
  by (simp add: flt_def)

lemma fge_Finite: "fge (Finite a) (Finite b) = (b \<le> a)"
  by (auto simp: fge_def flt_def)

lemmas Finite_eval = fmul_Finite fdiv_Finite fadd_Finite flt_Finite fge_Finite
  std_max_def std_min_def mk_zero_def mk_inf_def

text \<open>What the collaborators of the small scene answer.\<close>

lemma ex_intersect:
  "Scene_intersect (ex_scene ty pdf) \<lparr>origin = Vec3 (Finite a) b c, direction = d\<rparr> =
   (if a < 2
    then Some \<lparr>hitPrimitive = ex_prim ty pdf,
               surfaceInfo = ex_surf (Vec3 (Finite (a + 1)) (Finite 0) (Finite 0))\<rparr>
    else None)"
  by (simp add: ex_scene_def Finite_eval)

lemma ex_sampleBxDF:
  "sampleBxDF (ex_prim ty pdf) wo (ex_surf p) s =
   (Vec3 (Finite (1/2)) (Finite (1/2)) (Finite (1/2)), Vec3 (Finite 1) (Finite 0) (Finite 0), pdf, s)"
  by (simp add: sampleBxDF_def ex_prim_def ex_bxdf_def ex_surf_def localToWorld_def
      Vec3_splat_def Finite_eval)

lemma ex_getBxDFType: "getBxDFType (ex_prim ty pdf) = ty"
  by (simp add: getBxDFType_def ex_prim_def ex_bxdf_def)

lemma ex_surf_sel: "position (ex_surf p) = p" "normal (ex_surf p) = Vec3 (Finite 1) (Finite 0) (Finite 0)"
  by (simp_all add: ex_surf_def)

lemma ex_getNext1D: "getNext1D (ex_sampler\<lparr>cursor := n\<rparr>) = (Finite (1/4), ex_sampler\<lparr>cursor := Suc n\<rparr>)"
  "getNext1D ex_sampler = (Finite (1/4), ex_sampler\<lparr>cursor := 1\<rparr>)"
  by (simp_all add: getNext1D_def ex_sampler_def)

lemmas ex_eval = ex_intersect ex_sampleBxDF ex_getBxDFType ex_surf_sel ex_getNext1D
  deposit_def russian_roulette_def scatter_def bounce_def Let_def
  vneg_def vscale_def vdivf_def vmul_def dot_def Finite_eval

text \<open>The walk in \<open>ex_scene DIFFUSE 1\<close>, step by step: two diffuse hits, then the ray
  leaves the scene.\<close>

lemma ex_emit: "emit (ex_scene ty pdf) ex_sampler = ex_w0"
  by (simp add: emit_def ex_w0_def ex_scene_def ex_light_def ex_surf_def Vec3_splat_def
      vscale_def vdivf_def dot_def Finite_eval)

lemma ex_bounce0: "bounce (ex_scene DIFFUSE (Finite 1)) 0 ex_w0 = (None, ex_w1)"
  by (simp add: ex_w0_def ex_w1_def ex_p1_def ex_eval)

lemma ex_bounce1: "bounce (ex_scene DIFFUSE (Finite 1)) 1 ex_w1 = (None, ex_w2)"
  by (simp add: ex_w2_def ex_w1_def ex_p1_def ex_p2_def ex_eval)

lemma ex_bounce2: "bounce (ex_scene DIFFUSE (Finite 1)) 2 ex_w2 = (Some Escaped, ex_w2)"
  by (simp add: ex_w2_def ex_eval)

lemma ex_walk: "walk (ex_scene DIFFUSE (Finite 1)) 100 ex_sampler = (Escaped, ex_w2)"
proof -
  have "trace (ex_scene DIFFUSE (Finite 1)) 100 2 ex_w2 = (Escaped, ex_w2)"
    by (rule trace_break[OF _ ex_bounce2]) simp
  then have "trace (ex_scene DIFFUSE (Finite 1)) 100 1 ex_w1 = (Escaped, ex_w2)"
    using trace_continue[OF _ ex_bounce1, of 100] by simp
  then have "trace (ex_scene DIFFUSE (Finite 1)) 100 0 ex_w0 = (Escaped, ex_w2)"
    using trace_continue[OF _ ex_bounce0, of 100] by simp
  then show ?thesis by (simp add: walk_def ex_emit)
qed

text \<open>With \<open>maxDepth = 1\<close> the walk in the small scene runs out of depth after its
  first hit.\<close>

theorem walk_ends_within_maxDepth_witness:
  "walk (ex_scene DIFFUSE (Finite 1)) 1 ex_sampler = (DepthExhausted, ex_w1) \<and>
   length (visited ex_w1) = nat 1"
proof -
  have "trace (ex_scene DIFFUSE (Finite 1)) 1 1 ex_w1 = (DepthExhausted, ex_w1)"
    by (simp add: trace_done)
  then have "trace (ex_scene DIFFUSE (Finite 1)) 1 0 ex_w0 = (DepthExhausted, ex_w1)"
    using trace_continue[OF _ ex_bounce0, of 1] by simp
  then have w: "walk (ex_scene DIFFUSE (Finite 1)) 1 ex_sampler = (DepthExhausted, ex_w1)"
    by (simp add: walk_def ex_emit)
  with walk_ends_within_maxDepth[where scene = "ex_scene DIFFUSE (Finite 1)" and depth = 1
      and s = ex_sampler]
  show ?thesis by simp
qed

subsection \<open>Which hit the photon of a walk records\<close>

lemma deposit_slot_inv: "slot_inv w \<Longrightarrow> slot_inv (deposit info w)"
  by (auto simp: slot_inv_def deposit_slot deposit_visited split: list.splits)

lemma bounce_slot_inv:
  assumes "bounce scene k w = (r, w')" and "slot_inv w"
  shows "slot_inv w'"
proof -
  from bounce_cases[OF assms(1)] show ?thesis
  proof (elim disjE exE conjE)
    assume "w' = w" with assms(2) show ?thesis by simp
  next
    fix info assume "russian_roulette k (deposit info w) = (False, w')"
    from russian_roulette_keeps[OF this] deposit_slot_inv[OF assms(2), of info]
    show ?thesis by (simp add: slot_inv_def)
  next
    fix info w2 assume "russian_roulette k (deposit info w) = (True, w2)" "w' = scatter info w2"
    with russian_roulette_keeps[OF this(1)] deposit_slot_inv[OF assms(2), of info]
    show ?thesis by (simp add: slot_inv_def scatter_keeps)
  qed
qed

lemma trace_slot_inv: "slot_inv w \<Longrightarrow> slot_inv (snd (trace scene depth k w))"
  by (rule trace_invariant[where P = slot_inv, OF bounce_slot_inv])

text \<open>
  C1 (as amended). A walk leaves a photon in its slot if and only if it hits at least
  one surface classified \<open>DIFFUSE\<close> within \<open>maxDepth\<close> bounces, and the photon it
  leaves is the one of the LAST diffuse hit of the walk: its power is the throughput at
  that hit, its position the hit position, its direction the negated ray direction.
  \<open>photons[i]\<close> is assigned at every diffuse hit, each assignment replacing the one
  before.
\<close>

theorem walk_deposits_last_diffuse_hit:
  "slot (snd (walk scene depth s)) =
     (case filter (\<lambda>h. fst h = DIFFUSE) (visited (snd (walk scene depth s))) of
        [] \<Rightarrow> None
      | h # hs \<Rightarrow> Some (snd (last (h # hs)))) \<and>
   (slot (snd (walk scene depth s)) \<noteq> None) =
     (DIFFUSE \<in> fst ` set (visited (snd (walk scene depth s)))) \<and>
   length (visited (snd (walk scene depth s))) \<le> nat depth"
proof -
  let ?w = "snd (walk scene depth s)"
  have "slot_inv (emit scene s)"
    by (simp add: slot_inv_def emit_def split: prod.splits)
  then have inv: "slot_inv ?w"
    unfolding walk_def by (rule trace_slot_inv)
  then have a: "slot ?w =
     (case filter (\<lambda>h. fst h = DIFFUSE) (visited ?w) of
        [] \<Rightarrow> None | h # hs \<Rightarrow> Some (snd (last (h # hs))))"
    by (simp add: slot_inv_def)
  have b: "(slot ?w \<noteq> None) = (DIFFUSE \<in> fst ` set (visited ?w))"
  proof (cases "filter (\<lambda>h. fst h = DIFFUSE) (visited ?w)")
    case Nil
    then have "\<forall>h \<in> set (visited ?w). fst h \<noteq> DIFFUSE" by (simp add: filter_empty_conv)
    with a Nil show ?thesis by auto
  next
    case (Cons h hs)
    then have "h \<in> set (filter (\<lambda>h. fst h = DIFFUSE) (visited ?w))" by simp
    then have "h \<in> set (visited ?w)" "fst h = DIFFUSE" by simp_all
    with a Cons show ?thesis by force
  qed
  have c: "length (visited ?w) \<le> nat depth"
  proof -
    obtain r w' where t: "trace scene depth 0 (emit scene s) = (r, w')"
      by (cases "trace scene depth 0 (emit scene s)")
    have "visited (emit scene s) = []"
      by (simp add: emit_def split: prod.splits)
    with trace_length[OF t] t show ?thesis
      by (cases r) (simp_all add: walk_def)
  qed
  from a b c show ?thesis by blast
qed

text \<open>In the small scene the walk hits two diffuse surfaces; the slot ends with the
  photon of the second hit, not of the first.\<close>

theorem walk_first_diffuse_counterexample:
  "visited (snd (walk (ex_scene DIFFUSE (Finite 1)) 100 ex_sampler)) =
     [(DIFFUSE, Photon (Vec3 (Finite 1) (Finite 1) (Finite 1))
                  (Vec3 (Finite 1) (Finite 0) (Finite 0)) (Vec3 (Finite (-1)) NegZero NegZero)),
      (DIFFUSE, Photon (Vec3 (Finite (1/2)) (Finite (1/2)) (Finite (1/2)))
                  (Vec3 (Finite 2) (Finite 0) (Finite 0)) (Vec3 (Finite (-1)) NegZero NegZero))] \<and>
   slot (snd (walk (ex_scene DIFFUSE (Finite 1)) 100 ex_sampler)) =
     Some (Photon (Vec3 (Finite (1/2)) (Finite (1/2)) (Finite (1/2)))
                  (Vec3 (Finite 2) (Finite 0) (Finite 0)) (Vec3 (Finite (-1)) NegZero NegZero)) \<and>
   slot (snd (walk (ex_scene DIFFUSE (Finite 1)) 100 ex_sampler)) \<noteq>
     Some (Photon (Vec3 (Finite 1) (Finite 1) (Finite 1))
                  (Vec3 (Finite 1) (Finite 0) (Finite 0)) (Vec3 (Finite (-1)) NegZero NegZero))"
  by (simp add: ex_walk ex_w2_def ex_p1_def ex_p2_def)

subsection \<open>sampleAllBxDF\<close>

lemma transform_pairs_map:
  "transform_pairs si dps =
   map (\<lambda>dp. (localToWorld (fst dp) (dpdu si) (normal si) (dpdv si), snd dp)) dps"
  by (induction dps) simp_all

text \<open>
  C10. \<open>sampleAllBxDF\<close> returns the pairs that the BxDF's \<open>sampleAllDirection\<close> gives
  for the local-frame \<open>wo\<close>: as many pairs, in the same order, each with its second
  component unchanged and its first component replaced by its \<open>localToWorld\<close> transform
  in the frame of \<open>surfInfo\<close>.
\<close>

theorem sampleAllBxDF_pairs:
  "length (sampleAllBxDF p wo si) =
     length (BxDF_sampleAllDirection (bxdf p)
               (worldToLocal wo (dpdu si) (normal si) (dpdv si))) \<and>
   (\<forall>i < length (sampleAllBxDF p wo si).
      snd (sampleAllBxDF p wo si ! i) =
        snd (BxDF_sampleAllDirection (bxdf p)
               (worldToLocal wo (dpdu si) (normal si) (dpdv si)) ! i) \<and>
      fst (sampleAllBxDF p wo si ! i) =
        localToWorld
          (fst (BxDF_sampleAllDirection (bxdf p)
                  (worldToLocal wo (dpdu si) (normal si) (dpdv si)) ! i))
          (dpdu si) (normal si) (dpdv si))"
  by (simp add: sampleAllBxDF_def Let_def transform_pairs_map)

theorem sampleAllBxDF_pairs_witness:
  "length (sampleAllBxDF (ex_prim SPECULAR (Finite 1)) (Vec3 (Finite 0) (Finite 1) (Finite 0))
             (ex_surf (Vec3_splat (Finite 0)))) = 2 \<and>
   snd (sampleAllBxDF (ex_prim SPECULAR (Finite 1)) (Vec3 (Finite 0) (Finite 1) (Finite 0))
             (ex_surf (Vec3_splat (Finite 0))) ! 1) = Vec3_splat (Finite (1/2)) \<and>
   fst (sampleAllBxDF (ex_prim SPECULAR (Finite 1)) (Vec3 (Finite 0) (Finite 1) (Finite 0))
             (ex_surf (Vec3_splat (Finite 0))) ! 1) = Vec3 (Finite 0) (Finite 1) (Finite 0)"
proof -
  let ?out = "sampleAllBxDF (ex_prim SPECULAR (Finite 1)) (Vec3 (Finite 0) (Finite 1) (Finite 0))
             (ex_surf (Vec3_splat (Finite 0)))"
  note h = sampleAllBxDF_pairs[of "ex_prim SPECULAR (Finite 1)" "Vec3 (Finite 0) (Finite 1) (Finite 0)"
             "ex_surf (Vec3_splat (Finite 0))"]
  from h have len: "length ?out = 2" by (simp add: ex_defs)
  with h have "snd (?out ! 1) = Vec3_splat (Finite (1/2))"
    "fst (?out ! 1) = Vec3 (Finite 0) (Finite 1) (Finite 0)"
    by (simp_all add: ex_defs vec_defs float_defs)
  with len show ?thesis by simp
qed

subsection \<open>The photon store after build\<close>

lemma photon_tracing_length:
  "length (fst (photon_tracing scene depth n i slots s)) = length slots"
proof (induction scene depth n i slots s rule: photon_tracing.induct)
  case (1 scene depth n i slots s)
  show ?case
  proof (cases "i < n")
    case True
    obtain r w where w: "walk scene depth s = (r, w)" by (cases "walk scene depth s")
    with True "1.IH"[OF True w[symmetric]] show ?thesis
      by (simp add: photon_tracing_unfold)
  next
    case False
    then show ?thesis by (simp add: photon_tracing_done)
  qed
qed

lemma add_photons_photons:
  "photons (add_photons slots m) = photons m @ map the (filter (\<lambda>p. p \<noteq> None) slots)"
  by (induction slots arbitrary: m) (auto simp: addPhoton_def split: option.splits)

text \<open>
  C8. A walk fills at most the one slot \<open>photons[i]\<close>. When \<open>build\<close> returns on an
  instance whose photon map was empty, as the constructor leaves it, the store holds at
  most \<open>nPhotons\<close> photons: there are \<open>nPhotons\<close> slots, and the store holds the
  contents of the non-empty ones (in slot order).
\<close>

theorem build_at_most_nPhotons:
  assumes "build pm scene s = Inr (pm', s')" and "photons (photonMap pm) = []"
  shows "length (photons (photonMap pm')) \<le> nat (nPhotons pm) \<and>
         length (fst (photon_tracing scene (maxDepth pm) (nPhotons pm) 0
                        (replicate (nat (nPhotons pm)) None) s)) = nat (nPhotons pm) \<and>
         photons (photonMap pm') =
           map the (filter (\<lambda>p. p \<noteq> None)
             (fst (photon_tracing scene (maxDepth pm) (nPhotons pm) 0
                     (replicate (nat (nPhotons pm)) None) s)))"
proof -
  let ?slots = "fst (photon_tracing scene (maxDepth pm) (nPhotons pm) 0
                        (replicate (nat (nPhotons pm)) None) s)"
  have len: "length ?slots = nat (nPhotons pm)" by (simp add: photon_tracing_length)
  from assms have "photons (photonMap pm') = map the (filter (\<lambda>p. p \<noteq> None) ?slots)"
    by (auto simp: build_def PhotonMap_build_def add_photons_photons split: if_splits prod.splits)
  moreover have "length (map the (filter (\<lambda>p. p \<noteq> None) ?slots)) \<le> length ?slots"
    by simp
  ultimately show ?thesis using len by simp
qed

lemma ex_photon_tracing:
  "photon_tracing (ex_scene DIFFUSE (Finite 1)) 100 1 0 [None] ex_sampler =
     ([Some ex_p2], ex_sampler\<lparr>cursor := 1\<rparr>)"
  by (simp add: photon_tracing_unfold photon_tracing_done ex_walk ex_w2_def)

lemma ex_build:
  "build (PhotonMapping_new 1 d 100) (ex_scene DIFFUSE (Finite 1)) ex_sampler =
     Inr (\<lparr>nPhotons = 1, nDensityEstimation = d, maxDepth = 100,
           photonMap = \<lparr>photons = [ex_p2], built = True\<rparr>\<rparr>,
          ex_sampler\<lparr>cursor := 1\<rparr>)"
  by (simp add: build_def PhotonMapping_new_def ex_photon_tracing addPhoton_def PhotonMap_build_def)

theorem build_at_most_nPhotons_witness:
  "build (PhotonMapping_new 1 5 100) (ex_scene DIFFUSE (Finite 1)) ex_sampler =
     Inr (\<lparr>nPhotons = 1, nDensityEstimation = 5, maxDepth = 100,
           photonMap = \<lparr>photons = [ex_p2], built = True\<rparr>\<rparr>,
          ex_sampler\<lparr>cursor := 1\<rparr>) \<and>
   photons (photonMap (PhotonMapping_new 1 5 100)) = [] \<and>
   length (photons (photonMap \<lparr>nPhotons = 1, nDensityEstimation = 5, maxDepth = 100,
              photonMap = \<lparr>photons = [ex_p2], built = True\<rparr>\<rparr>))
     \<le> nat (nPhotons (PhotonMapping_new 1 5 100)) \<and>
   length (fst (photon_tracing (ex_scene DIFFUSE (Finite 1))
                  (maxDepth (PhotonMapping_new 1 5 100)) (nPhotons (PhotonMapping_new 1 5 100)) 0
                  (replicate (nat (nPhotons (PhotonMapping_new 1 5 100))) None) ex_sampler))
     = nat (nPhotons (PhotonMapping_new 1 5 100)) \<and>
   photons (photonMap \<lparr>nPhotons = 1, nDensityEstimation = 5, maxDepth = 100,
              photonMap = \<lparr>photons = [ex_p2], built = True\<rparr>\<rparr>) =
     map the (filter (\<lambda>p. p \<noteq> None)
       (fst (photon_tracing (ex_scene DIFFUSE (Finite 1))
               (maxDepth (PhotonMapping_new 1 5 100)) (nPhotons (PhotonMapping_new 1 5 100)) 0
               (replicate (nat (nPhotons (PhotonMapping_new 1 5 100))) None) ex_sampler)))"
proof -
  have e: "photons (photonMap (PhotonMapping_new 1 5 100)) = []"
    by (simp add: PhotonMapping_new_def)
  show ?thesis
    by (rule conjI, rule ex_build, rule conjI, rule e, rule build_at_most_nPhotons[OF ex_build e])
qed

subsection \<open>What build checks\<close>

text \<open>
  C2 (as amended). \<open>build\<close> validates no configuration at entry. It never reads
  \<open>nDensityEstimation\<close>: whatever its value, zero included, \<open>build\<close> does the same. With
  \<open>nPhotons = 0\<close> it traces no walk and returns normally, the photon map built with no
  photon added. Only a negative \<open>nPhotons\<close> fails before any walk, when the slot
  array is allocated. (What happens in a scene without lights is decided by
  \<^verbatim>\<open>Scene::sampleLight\<close>, which \<open>build\<close> calls unguarded.)
\<close>

theorem build_checks_no_configuration:
  "(nPhotons pm < 0 \<longrightarrow> build pm scene s = Inl Length_error) \<and>
   (nPhotons pm = 0 \<longrightarrow>
      build pm scene s = Inr (pm\<lparr>photonMap := PhotonMap_build (photonMap pm)\<rparr>, s)) \<and>
   build (pm\<lparr>nDensityEstimation := d\<rparr>) scene s =
     map_sum id (\<lambda>(pm', s'). (pm'\<lparr>nDensityEstimation := d\<rparr>, s')) (build pm scene s)"
  by (simp add: build_def photon_tracing_done split: prod.splits)

theorem build_checks_no_configuration_witness:
  "build (PhotonMapping_new (-1) 5 100) (ex_scene DIFFUSE (Finite 1)) ex_sampler = Inl Length_error \<and>
   build (PhotonMapping_new 0 5 100) (ex_scene DIFFUSE (Finite 1)) ex_sampler =
     Inr (\<lparr>nPhotons = 0, nDensityEstimation = 5, maxDepth = 100,
           photonMap = \<lparr>photons = [], built = True\<rparr>\<rparr>, ex_sampler) \<and>
   build (PhotonMapping_new 1 0 100) (ex_scene DIFFUSE (Finite 1)) ex_sampler =
     Inr (\<lparr>nPhotons = 1, nDensityEstimation = 0, maxDepth = 100,
           photonMap = \<lparr>photons = [ex_p2], built = True\<rparr>\<rparr>,
          ex_sampler\<lparr>cursor := 1\<rparr>)"
proof -
  note a = build_checks_no_configuration[of "PhotonMapping_new (-1) 5 100"
      "ex_scene DIFFUSE (Finite 1)" ex_sampler 0]
  note b = build_checks_no_configuration[of "PhotonMapping_new 0 5 100"
      "ex_scene DIFFUSE (Finite 1)" ex_sampler 0]
  note c = build_checks_no_configuration[of "PhotonMapping_new 1 5 100"
      "ex_scene DIFFUSE (Finite 1)" ex_sampler 0]
  have "build (PhotonMapping_new (-1) 5 100) (ex_scene DIFFUSE (Finite 1)) ex_sampler = Inl Length_error"
    using a by (simp add: PhotonMapping_new_def)
  moreover have "build (PhotonMapping_new 0 5 100) (ex_scene DIFFUSE (Finite 1)) ex_sampler =
     Inr (\<lparr>nPhotons = 0, nDensityEstimation = 5, maxDepth = 100,
           photonMap = \<lparr>photons = [], built = True\<rparr>\<rparr>, ex_sampler)"
    using b by (simp add: PhotonMapping_new_def PhotonMap_build_def)
  moreover have "build (PhotonMapping_new 1 0 100) (ex_scene DIFFUSE (Finite 1)) ex_sampler =
     Inr (\<lparr>nPhotons = 1, nDensityEstimation = 0, maxDepth = 100,
           photonMap = \<lparr>photons = [ex_p2], built = True\<rparr>\<rparr>,
          ex_sampler\<lparr>cursor := 1\<rparr>)"
    using c ex_build[of 5] by (simp add: PhotonMapping_new_def)
  ultimately show ?thesis by blast
qed

text \<open>With a zero density-estimation count \<open>build\<close> traces its walk and fills the
  photon map; with a zero photon budget it returns normally.\<close>

theorem build_configuration_counterexample:
  "nDensityEstimation (PhotonMapping_new 1 0 100) = 0 \<and>
   build (PhotonMapping_new 1 0 100) (ex_scene DIFFUSE (Finite 1)) ex_sampler =
     Inr (\<lparr>nPhotons = 1, nDensityEstimation = 0, maxDepth = 100,
           photonMap = \<lparr>photons =
             [Photon (Vec3 (Finite (1/2)) (Finite (1/2)) (Finite (1/2)))
                (Vec3 (Finite 2) (Finite 0) (Finite 0)) (Vec3 (Finite (-1)) NegZero NegZero)],
             built = True\<rparr>\<rparr>,
          ex_sampler\<lparr>cursor := 1\<rparr>) \<and>
   nPhotons (PhotonMapping_new 0 5 100) = 0 \<and>
   build (PhotonMapping_new 0 5 100) (ex_scene DIFFUSE (Finite 1)) ex_sampler =
     Inr (\<lparr>nPhotons = 0, nDensityEstimation = 5, maxDepth = 100,
           photonMap = \<lparr>photons = [], built = True\<rparr>\<rparr>, ex_sampler)"
  by (simp add: ex_build ex_p2_def)
     (simp add: build_def PhotonMapping_new_def photon_tracing_done PhotonMap_build_def)

subsection \<open>The initial throughput\<close>

lemma fmul_fdiv_swap: "fmul (fdiv a d) c = fdiv (fmul a c) d"
  by (cases a; cases d; cases c)
     (auto simp: float_defs zero_less_mult_iff mult_less_0_iff divide_less_0_iff
        zero_less_divide_iff)

text \<open>
  C6. The throughput at the start of a walk is the light's emitted radiance at the
  sampled point and direction, divided by \<open>light_choose_pdf * light_pos_pdf\<close> and
  multiplied by \<open>|dot(dir, normal)|\<close>, the absolute cosine for unit vectors (the
  program divides first; computed exactly, multiplying first gives the same value). The direction pdf
  is not divided out: the value does not change when the lights report another
  direction pdf.
\<close>

theorem emit_initial_throughput:
  assumes "Scene_sampleLight scene s = (light, light_choose_pdf, s1)"
      and "Light_samplePoint light s1 = (light_surf, light_pos_pdf, s2)"
      and "Light_sampleDirection light light_surf s2 = (dir, light_dir_pdf, s3)"
  shows "throughput (emit scene s) =
           vscale (vdivf (Light_Le light light_surf dir) (fmul light_choose_pdf light_pos_pdf))
                  (std_abs (dot dir (normal light_surf))) \<and>
         throughput (emit scene s) =
           vdivf (vscale (Light_Le light light_surf dir) (std_abs (dot dir (normal light_surf))))
                 (fmul light_choose_pdf light_pos_pdf) \<and>
         throughput (emit (with_direction_pdf q scene) s) = throughput (emit scene s)"
  using assms
  by (simp add: emit_def with_direction_pdf_def vscale_def vdivf_def fmul_fdiv_swap)

theorem emit_initial_throughput_witness:
  "Scene_sampleLight (ex_scene DIFFUSE (Finite 1)) ex_sampler = (ex_light, Finite 1, ex_sampler) \<and>
   Light_samplePoint ex_light ex_sampler = (ex_surf (Vec3_splat (Finite 0)), Finite 1, ex_sampler) \<and>
   Light_sampleDirection ex_light (ex_surf (Vec3_splat (Finite 0))) ex_sampler =
     (Vec3 (Finite 1) (Finite 0) (Finite 0), Finite (1/2), ex_sampler) \<and>
   throughput (emit (ex_scene DIFFUSE (Finite 1)) ex_sampler) = Vec3 (Finite 1) (Finite 1) (Finite 1) \<and>
   throughput (emit (with_direction_pdf (Finite 0) (ex_scene DIFFUSE (Finite 1))) ex_sampler) =
     Vec3 (Finite 1) (Finite 1) (Finite 1)"
proof -
  have a: "Scene_sampleLight (ex_scene DIFFUSE (Finite 1)) ex_sampler = (ex_light, Finite 1, ex_sampler)"
    by (simp add: ex_scene_def)
  have b: "Light_samplePoint ex_light ex_sampler = (ex_surf (Vec3_splat (Finite 0)), Finite 1, ex_sampler)"
    by (simp add: ex_light_def)
  have c: "Light_sampleDirection ex_light (ex_surf (Vec3_splat (Finite 0))) ex_sampler =
     (Vec3 (Finite 1) (Finite 0) (Finite 0), Finite (1/2), ex_sampler)"
    by (simp add: ex_light_def)
  have le: "Light_Le ex_light (ex_surf (Vec3_splat (Finite 0))) (Vec3 (Finite 1) (Finite 0) (Finite 0)) = Vec3 (Finite 1) (Finite 1) (Finite 1)"
    by (simp add: ex_light_def Vec3_splat_def)
  from emit_initial_throughput[OF a b c, of "Finite 0"] a b c show ?thesis
    by (simp add: le ex_surf_sel vscale_def vdivf_def dot_def Finite_eval)
qed

subsection \<open>Russian roulette\<close>

lemma std_min_max_finite:
  assumes "is_finite a" "is_finite b" "is_finite c"
  shows "is_finite (std_min (std_max a (std_max b c)) (Finite 1)) \<and>
         val (std_min (std_max a (std_max b c)) (Finite 1)) = min (max (val a) (max (val b) (val c))) 1"
  using assms
  by (cases a; cases b; cases c) (auto simp: std_min_def std_max_def flt_def)

text \<open>
  C5. At a hit in pass \<open>k\<close> of the loop, russian roulette is skipped when \<open>k = 0\<close>.
  For \<open>k > 0\<close> the survival probability \<open>p\<close> is
  \<^verbatim>\<open>std::min(std::max(t[0], std::max(t[1], t[2])), 1.0f)\<close>, which for finite components is
  the number \<open>min (max r (max g b)) 1\<close>; one number \<open>u\<close> is drawn from the sampler;
  when \<open>u >= p\<close> the walk ends there, keeping its slot, and otherwise each component
  of the throughput is divided by \<open>p\<close> before the next direction is sampled and the
  loop goes on with \<open>k + 1\<close>.
\<close>

theorem russian_roulette_rule:
  assumes "k < depth"
      and "Scene_intersect scene (ray w) = Some info"
      and "getNext1D (sampler w) = (u, s')"
      and "p = std_min (std_max (x (throughput w))
                          (std_max (y (throughput w)) (z (throughput w)))) (Finite 1)"
  shows "(k \<le> 0 \<longrightarrow>
            trace scene depth k w = trace scene depth (k + 1) (scatter info (deposit info w))) \<and>
         (0 < k \<and> fge u p \<longrightarrow>
            trace scene depth k w = (Roulette, (deposit info w)\<lparr>sampler := s'\<rparr>)) \<and>
         (0 < k \<and> \<not> fge u p \<longrightarrow>
            trace scene depth k w =
              trace scene depth (k + 1)
                (scatter info
                   ((deposit info w)
                      \<lparr>throughput := Vec3 (fdiv (x (throughput w)) p) (fdiv (y (throughput w)) p)
                                          (fdiv (z (throughput w)) p),
                       sampler := s'\<rparr>))) \<and>
         (is_finite (x (throughput w)) \<and> is_finite (y (throughput w)) \<and>
          is_finite (z (throughput w)) \<longrightarrow>
            is_finite p \<and>
            val p = min (max (val (x (throughput w)))
                          (max (val (y (throughput w))) (val (z (throughput w))))) 1)"
proof -
  have t: "throughput (deposit info w) = throughput w" "sampler (deposit info w) = sampler w"
    by (simp_all add: deposit_def Let_def)
  have b: "bounce scene k w =
    (if 0 < k then
       if fge u p then (Some Roulette, (deposit info w)\<lparr>sampler := s'\<rparr>)
       else (None, scatter info ((deposit info w)\<lparr>throughput := vdivf (throughput w) p, sampler := s'\<rparr>))
     else (None, scatter info (deposit info w)))"
    using assms(2,3,4) by (simp add: bounce_def russian_roulette_def t Let_def)
  show ?thesis
    using assms(1) b std_min_max_finite[of "x (throughput w)" "y (throughput w)" "z (throughput w)"] assms(4)
    by (auto simp: trace_continue trace_break vdivf_def)
qed

theorem russian_roulette_rule_witness:
  "trace (ex_scene DIFFUSE (Finite 1)) 100 1 ex_w1 = trace (ex_scene DIFFUSE (Finite 1)) 100 2 ex_w2 \<and>
   trace (ex_scene DIFFUSE (Finite 1)) 100 1 ex_w1_dim =
     (Roulette, ex_w1_dim\<lparr>sampler := ex_sampler\<lparr>cursor := 1\<rparr>,
         slot := Some (Photon (Vec3 (Finite (1/8)) (Finite (1/16)) (Finite (1/8))) (Vec3 (Finite 2) (Finite 0) (Finite 0))
                       (Vec3 (Finite (-1)) NegZero NegZero)),
         visited := [(DIFFUSE, ex_p1), (DIFFUSE, Photon (Vec3 (Finite (1/8)) (Finite (1/16)) (Finite (1/8))) (Vec3 (Finite 2) (Finite 0) (Finite 0))
                       (Vec3 (Finite (-1)) NegZero NegZero))]\<rparr>)"
proof -
  let ?info = "\<lparr>hitPrimitive = ex_prim DIFFUSE (Finite 1),
               surfaceInfo = ex_surf (Vec3 (Finite 2) (Finite 0) (Finite 0))\<rparr>"
  have k: "(1::int) < 100" by simp
  have i: "Scene_intersect (ex_scene DIFFUSE (Finite 1)) (ray ex_w1) = Some ?info"
    by (simp add: ex_w1_def ex_intersect)
  have g: "getNext1D (sampler ex_w1) = (Finite (1/4), ex_sampler\<lparr>cursor := 1\<rparr>)"
    by (simp add: ex_w1_def ex_getNext1D)
  have p: "Finite (1/2) = std_min (std_max (x (throughput ex_w1))
                          (std_max (y (throughput ex_w1)) (z (throughput ex_w1)))) (Finite 1)"
    by (simp add: ex_w1_def Finite_eval)
  have i': "Scene_intersect (ex_scene DIFFUSE (Finite 1)) (ray ex_w1_dim) = Some ?info"
    by (simp add: ex_w1_dim_def ex_w1_def ex_intersect)
  have g': "getNext1D (sampler ex_w1_dim) = (Finite (1/4), ex_sampler\<lparr>cursor := 1\<rparr>)"
    by (simp add: ex_w1_dim_def ex_w1_def ex_getNext1D)
  have p': "Finite (1/8) = std_min (std_max (x (throughput ex_w1_dim))
                          (std_max (y (throughput ex_w1_dim)) (z (throughput ex_w1_dim)))) (Finite 1)"
    by (simp add: ex_w1_dim_def ex_w1_def Finite_eval)
  have a: "trace (ex_scene DIFFUSE (Finite 1)) 100 1 ex_w1 = trace (ex_scene DIFFUSE (Finite 1)) 100 2 ex_w2"
    using russian_roulette_rule[OF k i g p]
    by (simp add: Finite_eval ex_w1_def ex_w2_def ex_p2_def ex_eval)
  have b: "trace (ex_scene DIFFUSE (Finite 1)) 100 1 ex_w1_dim =
     (Roulette, ex_w1_dim\<lparr>sampler := ex_sampler\<lparr>cursor := 1\<rparr>,
         slot := Some (Photon (Vec3 (Finite (1/8)) (Finite (1/16)) (Finite (1/8))) (Vec3 (Finite 2) (Finite 0) (Finite 0))
                       (Vec3 (Finite (-1)) NegZero NegZero)),
         visited := [(DIFFUSE, ex_p1), (DIFFUSE, Photon (Vec3 (Finite (1/8)) (Finite (1/16)) (Finite (1/8))) (Vec3 (Finite 2) (Finite 0) (Finite 0))
                       (Vec3 (Finite (-1)) NegZero NegZero))]\<rparr>)"
    using russian_roulette_rule[OF k i' g' p']
    by (simp add: Finite_eval ex_w1_dim_def ex_w1_def ex_eval)
  from a b show ?thesis by blast
qed

subsection \<open>A zero pdf in the loop\<close>

text \<open>A division by a zero never gives a finite value, and neither does a product with
  a value that is not finite. Both facts are about special values only.\<close>

lemma fdiv_zero_not_finite: "is_zero b \<Longrightarrow> \<not> is_finite (fdiv a b)"
  by (cases a; cases b) (auto simp: fdiv_def mk_inf_def)

lemma fmul_not_finite: "\<not> is_finite b \<Longrightarrow> \<not> is_finite (fmul a b)"
  by (cases a; cases b) (auto simp: fmul_def mk_inf_def)

text \<open>
  C3 (as amended). The loop does not test \<open>pdf_dir\<close>. At a hit that survives russian
  roulette, whatever the BxDF sample \<open>(f, dir, pdf_dir)\<close> is, the throughput is
  multiplied componentwise by \<open>f * |dot(dir, normal)| / pdf_dir\<close>, the ray is respawned
  along \<open>dir\<close>, and the walk goes on with the next pass. When \<open>pdf_dir\<close> is zero every
  component of the updated throughput is an infinity or NaN, and a diffuse surface hit
  next receives it as the power of its photon.
\<close>

theorem pdf_dir_not_tested:
  assumes "k < depth"
      and "Scene_intersect scene (ray w) = Some info"
      and "russian_roulette k (deposit info w) = (True, w2)"
      and "sampleBxDF (hitPrimitive info) (vneg (direction (ray w2))) (surfaceInfo info)
             (sampler w2) = (f, dir, pdf_dir, s')"
  shows "trace scene depth k w = trace scene depth (k + 1) (scatter info w2) \<and>
         scatter info w2 =
           w2\<lparr>throughput :=
                vmul (throughput w2)
                     (vdivf (vscale f (std_abs (dot dir (normal (surfaceInfo info))))) pdf_dir),
              ray := \<lparr>origin = position (surfaceInfo info), direction = dir\<rparr>,
              sampler := s'\<rparr> \<and>
         (is_zero pdf_dir \<longrightarrow>
            \<not> is_finite (x (throughput (scatter info w2))) \<and>
            \<not> is_finite (y (throughput (scatter info w2))) \<and>
            \<not> is_finite (z (throughput (scatter info w2)))) \<and>
         (getBxDFType (hitPrimitive info') = DIFFUSE \<longrightarrow>
            slot (deposit info' (scatter info w2)) =
              Some (Photon (throughput (scatter info w2)) (position (surfaceInfo info'))
                      (vneg dir)))"
proof -
  have b: "bounce scene k w = (None, scatter info w2)"
    using assms(2,3) by (simp add: bounce_def)
  have a: "trace scene depth k w = trace scene depth (k + 1) (scatter info w2)"
    by (rule trace_continue[OF assms(1) b])
  have s: "scatter info w2 =
           w2\<lparr>throughput :=
                vmul (throughput w2)
                     (vdivf (vscale f (std_abs (dot dir (normal (surfaceInfo info))))) pdf_dir),
              ray := \<lparr>origin = position (surfaceInfo info), direction = dir\<rparr>,
              sampler := s'\<rparr>"
    using assms(4) by (simp add: scatter_def)
  have z: "\<not> is_finite (x (throughput (scatter info w2))) \<and>
            \<not> is_finite (y (throughput (scatter info w2))) \<and>
            \<not> is_finite (z (throughput (scatter info w2)))" if "is_zero pdf_dir"
    by (simp add: s vmul_def vdivf_def fmul_not_finite fdiv_zero_not_finite[OF that])
  have d: "slot (deposit info' (scatter info w2)) =
              Some (Photon (throughput (scatter info w2)) (position (surfaceInfo info'))
                      (vneg dir))" if "getBxDFType (hitPrimitive info') = DIFFUSE"
    using that by (simp add: deposit_slot) (simp add: s)
  from a s z d show ?thesis by blast
qed

text \<open>In \<open>ex_scene DIFFUSE 0\<close> every BxDF sample has \<open>pdf_dir = 0\<close>: after the first hit
  the walk goes on with an infinite throughput, which the second hit deposits.\<close>

lemma PInf_eval:
  "fdiv (Finite (1/2)) (Finite 0) = PInf" "fmul (Finite 1) PInf = PInf"
  "fmul PInf PInf = PInf" "fdiv PInf (Finite 1) = PInf"
  "std_max PInf PInf = PInf" "std_min PInf (Finite 1) = Finite 1"
  "fge (Finite (1/4)) (Finite 1) = False"
  by (simp_all add: float_defs)

lemma ex_zero_pdf_bounce0: "bounce (ex_scene DIFFUSE (Finite 0)) 0 ex_w0 = (None, ex_v1)"
  by (simp add: ex_w0_def ex_w1_def ex_v1_def ex_p1_def ex_intersect ex_sampleBxDF ex_getBxDFType
      ex_surf_sel deposit_def russian_roulette_def scatter_def bounce_def Let_def
      vneg_def vscale_def vdivf_def vmul_def dot_def fmul_Finite fadd_Finite mk_zero_def PInf_eval)

lemma ex_zero_pdf_bounce1: "bounce (ex_scene DIFFUSE (Finite 0)) 1 ex_v1 = (None, ex_v2)"
  by (simp add: ex_w1_def ex_w2_def ex_v1_def ex_v2_def ex_p1_def ex_p2_inf_def ex_intersect
      ex_sampleBxDF ex_getBxDFType ex_getNext1D
      ex_surf_sel deposit_def russian_roulette_def scatter_def bounce_def Let_def
      vneg_def vscale_def vdivf_def vmul_def dot_def fmul_Finite fadd_Finite mk_zero_def PInf_eval)

lemma ex_zero_pdf_bounce2: "bounce (ex_scene DIFFUSE (Finite 0)) 2 ex_v2 = (Some Escaped, ex_v2)"
  by (simp add: ex_w2_def ex_v2_def ex_intersect bounce_def)

lemma ex_zero_pdf_walk: "walk (ex_scene DIFFUSE (Finite 0)) 100 ex_sampler = (Escaped, ex_v2)"
proof -
  have "trace (ex_scene DIFFUSE (Finite 0)) 100 2 ex_v2 = (Escaped, ex_v2)"
    by (rule trace_break[OF _ ex_zero_pdf_bounce2]) simp
  then have "trace (ex_scene DIFFUSE (Finite 0)) 100 1 ex_v1 = (Escaped, ex_v2)"
    using trace_continue[OF _ ex_zero_pdf_bounce1, of 100] by simp
  then have "trace (ex_scene DIFFUSE (Finite 0)) 100 0 ex_w0 = (Escaped, ex_v2)"
    using trace_continue[OF _ ex_zero_pdf_bounce0, of 100] by simp
  then show ?thesis by (simp add: walk_def ex_emit)
qed

theorem pdf_dir_not_tested_witness:
  "trace (ex_scene DIFFUSE (Finite 0)) 100 0 ex_w0 = trace (ex_scene DIFFUSE (Finite 0)) 100 1 ex_v1 \<and>
   is_zero (Finite 0) \<and>
   \<not> is_finite (x (throughput ex_v1)) \<and> \<not> is_finite (y (throughput ex_v1)) \<and>
   \<not> is_finite (z (throughput ex_v1)) \<and>
   slot (deposit \<lparr>hitPrimitive = ex_prim DIFFUSE (Finite 0),
                   surfaceInfo = ex_surf (Vec3 (Finite 2) (Finite 0) (Finite 0))\<rparr> ex_v1) =
     Some ex_p2_inf"
proof -
  let ?info = "\<lparr>hitPrimitive = ex_prim DIFFUSE (Finite 0),
                 surfaceInfo = ex_surf (Vec3 (Finite 1) (Finite 0) (Finite 0))\<rparr>"
  let ?info' = "\<lparr>hitPrimitive = ex_prim DIFFUSE (Finite 0),
                 surfaceInfo = ex_surf (Vec3 (Finite 2) (Finite 0) (Finite 0))\<rparr>"
  have k: "(0::int) < 100" by simp
  have i: "Scene_intersect (ex_scene DIFFUSE (Finite 0)) (ray ex_w0) = Some ?info"
    by (simp add: ex_w0_def ex_intersect)
  have r: "russian_roulette 0 (deposit ?info ex_w0) = (True, deposit ?info ex_w0)"
    by (simp add: russian_roulette_def)
  have sb: "sampleBxDF (hitPrimitive ?info) (vneg (direction (ray (deposit ?info ex_w0))))
      (surfaceInfo ?info) (sampler (deposit ?info ex_w0)) =
      (Vec3 (Finite (1/2)) (Finite (1/2)) (Finite (1/2)), Vec3 (Finite 1) (Finite 0) (Finite 0),
       Finite 0, ex_sampler)"
    by (simp add: ex_sampleBxDF ex_w0_def deposit_def Let_def)
  have sc: "scatter ?info (deposit ?info ex_w0) = ex_v1"
    using ex_zero_pdf_bounce0 i r by (simp add: bounce_def)
  have t: "Photon (throughput ex_v1) (position (surfaceInfo ?info'))
             (vneg (Vec3 (Finite 1) (Finite 0) (Finite 0))) = ex_p2_inf"
    by (simp add: ex_v1_def ex_w1_def ex_p2_inf_def ex_surf_sel vneg_def)
  have g: "getBxDFType (hitPrimitive ?info') = DIFFUSE"
    by (simp add: ex_getBxDFType)
  from pdf_dir_not_tested[OF k i r sb, of ?info'] sc t g show ?thesis
    by simp
qed

text \<open>The whole walk: the BxDF sample at the first hit has \<open>pdf_dir = 0\<close>, the walk
  does not end there, and it leaves a photon of infinite power in its slot.\<close>

theorem zero_pdf_counterexample:
  "sampleBxDF (ex_prim DIFFUSE (Finite 0)) (Vec3 (Finite (-1)) NegZero NegZero)
      (ex_surf (Vec3 (Finite 1) (Finite 0) (Finite 0))) ex_sampler =
     (Vec3 (Finite (1/2)) (Finite (1/2)) (Finite (1/2)), Vec3 (Finite 1) (Finite 0) (Finite 0),
      Finite 0, ex_sampler) \<and>
   length (visited (snd (walk (ex_scene DIFFUSE (Finite 0)) 100 ex_sampler))) = 2 \<and>
   throughput (snd (walk (ex_scene DIFFUSE (Finite 0)) 100 ex_sampler)) = Vec3 PInf PInf PInf \<and>
   slot (snd (walk (ex_scene DIFFUSE (Finite 0)) 100 ex_sampler)) =
     Some (Photon (Vec3 PInf PInf PInf) (Vec3 (Finite 2) (Finite 0) (Finite 0))
             (Vec3 (Finite (-1)) NegZero NegZero))"
  by (simp add: ex_zero_pdf_walk ex_v2_def ex_w2_def ex_p2_inf_def ex_sampleBxDF)

end
